theory Spec2Isabelle
  imports Main "HOL-Library.Sublist"
begin

section \<open>The Python 2 values the matchers are compared with\<close>

text \<open>
  \<^verbatim>\<open>mockextras/matchers.py\<close> defines three classes, \<^verbatim>\<open>Any\<close>, \<^verbatim>\<open>Contains\<close> and
  \<^verbatim>\<open>AnyOf\<close>, whose methods are one-liners over builtins of Python 2 (the module uses
  \<^verbatim>\<open>basestring\<close>): \<^verbatim>\<open>isinstance\<close>, \<^verbatim>\<open>in\<close>, \<^verbatim>\<open>set\<close>, \<^verbatim>\<open>hasattr\<close>, \<^verbatim>\<open>%\<close> formatting and the
  dispatch of \<^verbatim>\<open>==\<close>. The builtins are modelled here on a fragment of the language: the
  classes below, and values built from \<^verbatim>\<open>None\<close>, booleans, plain integers, byte strings,
  lists, tuples, sets, frozensets and class objects. Containers hold such builtin values
  only; a matcher instance is an object of its own (type \<open>obj\<close> below) and can be a
  candidate, never an element.
\<close>

datatype pyclass =
  ObjectT | TypeT | NoneTypeT | IntT | BoolT | BasestringT | StrT
  | ListT | TupleT | SetT | FrozensetT
  | AnyT | ContainsT | AnyOfT

datatype val =
  VNone
  | VBool bool
  | VInt int
  | VStr string
  | VList "val list"
  | VTuple "val list"
  | VSet "val list"
  | VFrozenset "val list"
  | VClass pyclass

text \<open>A set is the list of its members in iteration order; \<^verbatim>\<open>set(...)\<close> below never
  stores two equal members.\<close>

datatype error = TypeError

subsection \<open>The three matcher classes\<close>

text \<open>\<^verbatim>\<open>self._cls\<close>, \<^verbatim>\<open>self._value\<close> and \<^verbatim>\<open>self._set\<close>.\<close>

record Any =
  Any_cls :: val

record Contains =
  Contains_value :: val

record AnyOf =
  AnyOf_set :: "val list"

datatype obj =
  Plain val
  | AnyObj Any
  | ContainsObj Contains
  | AnyOfObj AnyOf

subsection \<open>Classes: \<^verbatim>\<open>type\<close>, the inheritance chain, \<^verbatim>\<open>isinstance\<close>\<close>

text \<open>The method resolution order of each class: \<^verbatim>\<open>bool\<close> derives from \<^verbatim>\<open>int\<close>,
  \<^verbatim>\<open>str\<close> from \<^verbatim>\<open>basestring\<close>, everything else (the three matcher classes too:
  \<^verbatim>\<open>class Any(object)\<close>) directly from \<^verbatim>\<open>object\<close>.\<close>

fun mro :: "pyclass \<Rightarrow> pyclass list" where
  "mro ObjectT = [ObjectT]"
| "mro BoolT = [BoolT, IntT, ObjectT]"
| "mro StrT = [StrT, BasestringT, ObjectT]"
| "mro c = [c, ObjectT]"

definition issubclass :: "pyclass \<Rightarrow> pyclass \<Rightarrow> bool" where
  "issubclass c d = (d \<in> set (mro c))"

fun type_of_val :: "val \<Rightarrow> pyclass" where
  "type_of_val VNone = NoneTypeT"
| "type_of_val (VBool _) = BoolT"
| "type_of_val (VInt _) = IntT"
| "type_of_val (VStr _) = StrT"
| "type_of_val (VList _) = ListT"
| "type_of_val (VTuple _) = TupleT"
| "type_of_val (VSet _) = SetT"
| "type_of_val (VFrozenset _) = FrozensetT"
| "type_of_val (VClass _) = TypeT"

fun type_of :: "obj \<Rightarrow> pyclass" where
  "type_of (Plain v) = type_of_val v"
| "type_of (AnyObj _) = AnyT"
| "type_of (ContainsObj _) = ContainsT"
| "type_of (AnyOfObj _) = AnyOfT"

text \<open>\<^verbatim>\<open>isinstance(inst, c)\<close> for a class object \<^verbatim>\<open>c\<close>: it cannot raise.\<close>

definition isinstance_class :: "obj \<Rightarrow> pyclass \<Rightarrow> bool" where
  "isinstance_class inst c = issubclass (type_of inst) c"

text \<open>\<^verbatim>\<open>isinstance(inst, classinfo)\<close> for any second argument: a class, a tuple of
  class infos (tried in order, stopping at the first that matches or raises), and a
  \<^verbatim>\<open>TypeError\<close> for everything else.\<close>

fun isinstance :: "obj \<Rightarrow> val \<Rightarrow> error + bool"
  and isinstance_any :: "obj \<Rightarrow> val list \<Rightarrow> error + bool" where
  "isinstance inst (VClass c) = Inr (isinstance_class inst c)"
| "isinstance inst (VTuple cs) = isinstance_any inst cs"
| "isinstance inst VNone = Inl TypeError"
| "isinstance inst (VBool _) = Inl TypeError"
| "isinstance inst (VInt _) = Inl TypeError"
| "isinstance inst (VStr _) = Inl TypeError"
| "isinstance inst (VList _) = Inl TypeError"
| "isinstance inst (VSet _) = Inl TypeError"
| "isinstance inst (VFrozenset _) = Inl TypeError"
| "isinstance_any inst [] = Inr False"
| "isinstance_any inst (c # cs) =
     (case isinstance inst c of
        Inl e \<Rightarrow> Inl e
      | Inr b \<Rightarrow> if b then Inr True else isinstance_any inst cs)"

subsection \<open>Equality of builtin values\<close>

definition bool_int :: "bool \<Rightarrow> int" where
  "bool_int b = (if b then 1 else 0)"

text \<open>\<^verbatim>\<open>a == b\<close> on builtin values: numbers by value (\<^verbatim>\<open>True == 1\<close>), strings, lists and
  tuples item by item, sets and frozensets by their members (each included in the other;
  CPython compares the sizes and tests one inclusion, the same thing on sets without
  duplicates), class objects by identity, and \<^verbatim>\<open>False\<close> across kinds.\<close>

fun py_eq :: "val \<Rightarrow> val \<Rightarrow> bool" where
  "py_eq VNone b = (case b of VNone \<Rightarrow> True | _ \<Rightarrow> False)"
| "py_eq (VBool x) b =
     (case b of VBool y \<Rightarrow> x = y | VInt n \<Rightarrow> bool_int x = n | _ \<Rightarrow> False)"
| "py_eq (VInt m) b =
     (case b of VBool y \<Rightarrow> m = bool_int y | VInt n \<Rightarrow> m = n | _ \<Rightarrow> False)"
| "py_eq (VStr s) b = (case b of VStr t \<Rightarrow> s = t | _ \<Rightarrow> False)"
| "py_eq (VList xs) b =
     (case b of VList ys \<Rightarrow> list_all2 (\<lambda>x y. py_eq x y) xs ys | _ \<Rightarrow> False)"
| "py_eq (VTuple xs) b =
     (case b of VTuple ys \<Rightarrow> list_all2 (\<lambda>x y. py_eq x y) xs ys | _ \<Rightarrow> False)"
| "py_eq (VSet xs) b =
     (case b of
        VSet ys \<Rightarrow> list_all (\<lambda>x. list_ex (\<lambda>y. py_eq x y) ys) xs
                  \<and> list_all (\<lambda>y. list_ex (\<lambda>x. py_eq x y) xs) ys
      | VFrozenset ys \<Rightarrow> list_all (\<lambda>x. list_ex (\<lambda>y. py_eq x y) ys) xs
                  \<and> list_all (\<lambda>y. list_ex (\<lambda>x. py_eq x y) xs) ys
      | _ \<Rightarrow> False)"
| "py_eq (VFrozenset xs) b =
     (case b of
        VSet ys \<Rightarrow> list_all (\<lambda>x. list_ex (\<lambda>y. py_eq x y) ys) xs
                  \<and> list_all (\<lambda>y. list_ex (\<lambda>x. py_eq x y) xs) ys
      | VFrozenset ys \<Rightarrow> list_all (\<lambda>x. list_ex (\<lambda>y. py_eq x y) ys) xs
                  \<and> list_all (\<lambda>y. list_ex (\<lambda>x. py_eq x y) xs) ys
      | _ \<Rightarrow> False)"
| "py_eq (VClass c) b = (case b of VClass d \<Rightarrow> c = d | _ \<Rightarrow> False)"

text \<open>The loop of every membership test: is some item equal to the needle?\<close>

definition item_in :: "val \<Rightarrow> val list \<Rightarrow> bool" where
  "item_in x ys = list_ex (\<lambda>y. py_eq x y) ys"

subsection \<open>Hashing, and membership in a set\<close>

text \<open>\<^verbatim>\<open>hash(v)\<close> succeeds: lists and sets are unhashable, a tuple is hashable when
  all its items are.\<close>

fun hashable :: "val \<Rightarrow> bool" where
  "hashable (VList _) = False"
| "hashable (VSet _) = False"
| "hashable (VTuple xs) = list_all (\<lambda>x. hashable x) xs"
| "hashable VNone = True"
| "hashable (VBool _) = True"
| "hashable (VInt _) = True"
| "hashable (VStr _) = True"
| "hashable (VFrozenset _) = True"
| "hashable (VClass _) = True"

text \<open>\<^verbatim>\<open>key in s\<close> for a set \<^verbatim>\<open>s\<close>. The key is hashed first, which raises
  \<^verbatim>\<open>TypeError\<close> for an unhashable key; a key that is itself a set is then looked up as
  the frozenset of its members (\<^verbatim>\<open>set_contains\<close> in CPython's \<^verbatim>\<open>setobject.c\<close>). A
  matcher instance hashes by identity (in Python 2 a class that defines \<^verbatim>\<open>__eq__\<close>
  keeps \<^verbatim>\<open>object.__hash__\<close>), and no stored builtin value is that instance.\<close>

fun set_contains :: "val list \<Rightarrow> obj \<Rightarrow> error + bool" where
  "set_contains s (Plain v) =
     (if hashable v then Inr (item_in v s)
      else (case v of
              VSet xs \<Rightarrow> Inr (item_in (VFrozenset xs) s)
            | _ \<Rightarrow> Inl TypeError))"
| "set_contains s (AnyObj _) = Inr False"
| "set_contains s (ContainsObj _) = Inr False"
| "set_contains s (AnyOfObj _) = Inr False"

subsection \<open>The \<^verbatim>\<open>in\<close> operator\<close>

text \<open>\<^verbatim>\<open>x in c\<close>: a substring test on a string (the needle must be a string too), a
  scan for an equal item on a list or tuple, a lookup in a set or frozenset, and a
  \<^verbatim>\<open>TypeError\<close> for a right operand with no membership protocol: \<^verbatim>\<open>None\<close>, numbers,
  class objects and the matchers themselves (they define neither \<^verbatim>\<open>__contains__\<close>
  nor \<^verbatim>\<open>__iter__\<close> nor \<^verbatim>\<open>__getitem__\<close>).\<close>

fun py_contains :: "val \<Rightarrow> obj \<Rightarrow> error + bool" where
  "py_contains x (Plain (VStr s)) =
     (case x of VStr t \<Rightarrow> Inr (sublist t s) | _ \<Rightarrow> Inl TypeError)"
| "py_contains x (Plain (VList ys)) = Inr (item_in x ys)"
| "py_contains x (Plain (VTuple ys)) = Inr (item_in x ys)"
| "py_contains x (Plain (VSet ys)) = set_contains ys (Plain x)"
| "py_contains x (Plain (VFrozenset ys)) = set_contains ys (Plain x)"
| "py_contains x (Plain VNone) = Inl TypeError"
| "py_contains x (Plain (VBool _)) = Inl TypeError"
| "py_contains x (Plain (VInt _)) = Inl TypeError"
| "py_contains x (Plain (VClass _)) = Inl TypeError"
| "py_contains x (AnyObj _) = Inl TypeError"
| "py_contains x (ContainsObj _) = Inl TypeError"
| "py_contains x (AnyOfObj _) = Inl TypeError"

text \<open>The candidates that have a membership protocol.\<close>

fun supports_in :: "obj \<Rightarrow> bool" where
  "supports_in (Plain (VStr _)) = True"
| "supports_in (Plain (VList _)) = True"
| "supports_in (Plain (VTuple _)) = True"
| "supports_in (Plain (VSet _)) = True"
| "supports_in (Plain (VFrozenset _)) = True"
| "supports_in _ = False"

subsection \<open>Building a set: \<^verbatim>\<open>set(iterable)\<close>\<close>

text \<open>Adding one item hashes it (a set is not converted here: \<^verbatim>\<open>set([set()])\<close>
  raises) and keeps the set unchanged when an equal member is already there.\<close>

definition set_add :: "val list \<Rightarrow> val \<Rightarrow> error + val list" where
  "set_add s x =
     (if hashable x then Inr (if item_in x s then s else s @ [x]) else Inl TypeError)"

fun set_update :: "val list \<Rightarrow> val list \<Rightarrow> error + val list" where
  "set_update s [] = Inr s"
| "set_update s (x # xs) =
     (case set_add s x of Inl e \<Rightarrow> Inl e | Inr s' \<Rightarrow> set_update s' xs)"

text \<open>The items an iteration yields: the characters of a string as one-character
  strings, the items of a container, \<^verbatim>\<open>TypeError\<close> for what is not iterable.\<close>

fun py_iter :: "val \<Rightarrow> error + val list" where
  "py_iter (VStr s) = Inr (map (\<lambda>c. VStr [c]) s)"
| "py_iter (VList xs) = Inr xs"
| "py_iter (VTuple xs) = Inr xs"
| "py_iter (VSet xs) = Inr xs"
| "py_iter (VFrozenset xs) = Inr xs"
| "py_iter VNone = Inl TypeError"
| "py_iter (VBool _) = Inl TypeError"
| "py_iter (VInt _) = Inl TypeError"
| "py_iter (VClass _) = Inl TypeError"

definition py_set :: "val \<Rightarrow> error + val list" where
  "py_set it = (case py_iter it of Inl e \<Rightarrow> Inl e | Inr xs \<Rightarrow> set_update [] xs)"

text \<open>\<^verbatim>\<open>set(*args)\<close>: \<^verbatim>\<open>set()\<close> for no argument, \<^verbatim>\<open>set(a)\<close> for one, and
  \<^verbatim>\<open>TypeError\<close> (set expected at most 1 arguments) for more.\<close>

fun py_set_star :: "val list \<Rightarrow> error + val list" where
  "py_set_star [] = Inr []"
| "py_set_star [a] = py_set a"
| "py_set_star (a # b # cs) = Inl TypeError"

text \<open>\<^verbatim>\<open>hasattr(v, '__iter__')\<close> in Python 2: true of the containers, false of
  strings (a Python 2 \<^verbatim>\<open>str\<close> iterates through \<^verbatim>\<open>__getitem__\<close>), and true of a
  container class object, where the lookup finds the method of the class.\<close>

fun hasattr_iter :: "val \<Rightarrow> bool" where
  "hasattr_iter (VList _) = True"
| "hasattr_iter (VTuple _) = True"
| "hasattr_iter (VSet _) = True"
| "hasattr_iter (VFrozenset _) = True"
| "hasattr_iter (VClass c) = (c \<in> {ListT, TupleT, SetT, FrozensetT})"
| "hasattr_iter VNone = False"
| "hasattr_iter (VBool _) = False"
| "hasattr_iter (VInt _) = False"
| "hasattr_iter (VStr _) = False"

subsection \<open>\<^verbatim>\<open>repr\<close>, \<^verbatim>\<open>str\<close> and \<^verbatim>\<open>%\<close> formatting\<close>

definition digit_char :: "nat \<Rightarrow> char" where
  "digit_char d = ''0123456789abcdef'' ! d"

fun nat_digits :: "nat \<Rightarrow> string" where
  "nat_digits n =
     (if n < 10 then [digit_char n] else nat_digits (n div 10) @ [digit_char (n mod 10)])"

declare nat_digits.simps [simp del]

definition int_repr :: "int \<Rightarrow> string" where
  "int_repr i = (if i < 0 then CHR ''-'' # nat_digits (nat (- i)) else nat_digits (nat i))"

text \<open>The \<^verbatim>\<open>repr\<close> of a byte string: single quotes, unless the string has a single
  quote and no double quote; the quote and the backslash escaped, tab, newline and
  carriage return by letter, other bytes outside the printable range in hexadecimal.\<close>

definition escape_char :: "char \<Rightarrow> char \<Rightarrow> string" where
  "escape_char q c =
     (if c = q \<or> c = CHR 0x5C then [CHR 0x5C, c]
      else if c = CHR 0x09 then [CHR 0x5C, CHR ''t'']
      else if c = CHR 0x0A then [CHR 0x5C, CHR ''n'']
      else if c = CHR 0x0D then [CHR 0x5C, CHR ''r'']
      else if (of_char c :: nat) < 32 \<or> 127 \<le> (of_char c :: nat)
        then [CHR 0x5C, CHR ''x'', digit_char (of_char c div 16), digit_char (of_char c mod 16)]
      else [c])"

definition str_repr :: "string \<Rightarrow> string" where
  "str_repr s =
     (let q = (if CHR 0x27 \<in> set s \<and> CHR 0x22 \<notin> set s then CHR 0x22 else CHR 0x27)
      in q # concat (map (escape_char q) s) @ [q])"

fun comma_join :: "string list \<Rightarrow> string" where
  "comma_join [] = []"
| "comma_join [x] = x"
| "comma_join (x # y # ys) = x @ '', '' @ comma_join (y # ys)"

fun class_name :: "pyclass \<Rightarrow> string" where
  "class_name ObjectT = ''object''"
| "class_name TypeT = ''type''"
| "class_name NoneTypeT = ''NoneType''"
| "class_name IntT = ''int''"
| "class_name BoolT = ''bool''"
| "class_name BasestringT = ''basestring''"
| "class_name StrT = ''str''"
| "class_name ListT = ''list''"
| "class_name TupleT = ''tuple''"
| "class_name SetT = ''set''"
| "class_name FrozensetT = ''frozenset''"
| "class_name AnyT = ''Any''"
| "class_name ContainsT = ''Contains''"
| "class_name AnyOfT = ''AnyOf''"

text \<open>How Python 2 displays a class object: a builtin as \<^verbatim>\<open><type 'int'>\<close>, a class of
  the module with its qualified name.\<close>

definition class_repr :: "pyclass \<Rightarrow> string" where
  "class_repr c =
     (if c \<in> {AnyT, ContainsT, AnyOfT}
      then ''<class '' @ [CHR 0x27] @ ''mockextras.matchers.'' @ class_name c @ [CHR 0x27] @ ''>''
      else ''<type '' @ [CHR 0x27] @ class_name c @ [CHR 0x27] @ ''>'')"

fun py_repr :: "val \<Rightarrow> string" where
  "py_repr VNone = ''None''"
| "py_repr (VBool b) = (if b then ''True'' else ''False'')"
| "py_repr (VInt i) = int_repr i"
| "py_repr (VStr s) = str_repr s"
| "py_repr (VList xs) = ''['' @ comma_join (map (\<lambda>x. py_repr x) xs) @ '']''"
| "py_repr (VTuple xs) =
     (case xs of
        [x] \<Rightarrow> ''('' @ py_repr x @ '',)''
      | _ \<Rightarrow> ''('' @ comma_join (map (\<lambda>x. py_repr x) xs) @ '')'')"
| "py_repr (VSet xs) = ''set(['' @ comma_join (map (\<lambda>x. py_repr x) xs) @ ''])''"
| "py_repr (VFrozenset xs) = ''frozenset(['' @ comma_join (map (\<lambda>x. py_repr x) xs) @ ''])''"
| "py_repr (VClass c) = class_repr c"

fun py_str :: "val \<Rightarrow> string" where
  "py_str (VStr s) = s"
| "py_str v = py_repr v"

text \<open>\<^verbatim>\<open>'pre%Xsuf' % arg\<close> with one conversion \<^verbatim>\<open>%s\<close> or \<^verbatim>\<open>%r\<close> (\<open>conv\<close>): a right
  operand that is a tuple is the tuple of arguments, so it must have exactly one item,
  which is the value formatted; anything else is the single argument.\<close>

fun format1 :: "string \<Rightarrow> (val \<Rightarrow> string) \<Rightarrow> string \<Rightarrow> val \<Rightarrow> error + string" where
  "format1 pre conv suf (VTuple xs) =
     (case xs of [x] \<Rightarrow> Inr (pre @ conv x @ suf) | _ \<Rightarrow> Inl TypeError)"
| "format1 pre conv suf v = Inr (pre @ conv v @ suf)"

section \<open>The matchers\<close>

subsection \<open>\<^verbatim>\<open>class Any\<close>\<close>

text \<open>\<^verbatim>\<open>def __init__(self, cls=object)\<close>: \<open>None\<close> is the call without argument.\<close>

fun Any_init :: "val option \<Rightarrow> Any" where
  "Any_init None = \<lparr>Any_cls = VClass ObjectT\<rparr>"
| "Any_init (Some c) = \<lparr>Any_cls = c\<rparr>"

definition Any_eq :: "Any \<Rightarrow> obj \<Rightarrow> error + bool" where
  "Any_eq self other = isinstance other (Any_cls self)"

definition Any_ne :: "Any \<Rightarrow> obj \<Rightarrow> error + bool" where
  "Any_ne self other =
     (case Any_eq self other of Inl e \<Rightarrow> Inl e | Inr b \<Rightarrow> Inr (\<not> b))"

definition Any_repr :: "Any \<Rightarrow> error + string" where
  "Any_repr self =
     format1 ''Any('' py_str '')''
       (if Any_cls self = VClass ObjectT then VStr [] else Any_cls self)"

subsection \<open>\<^verbatim>\<open>class Contains\<close>\<close>

definition Contains_init :: "val \<Rightarrow> Contains" where
  "Contains_init v = \<lparr>Contains_value = v\<rparr>"

definition Contains_eq :: "Contains \<Rightarrow> obj \<Rightarrow> error + bool" where
  "Contains_eq self other = py_contains (Contains_value self) other"

definition Contains_ne :: "Contains \<Rightarrow> obj \<Rightarrow> error + bool" where
  "Contains_ne self other =
     (case Contains_eq self other of Inl e \<Rightarrow> Inl e | Inr b \<Rightarrow> Inr (\<not> b))"

definition Contains_repr :: "Contains \<Rightarrow> error + string" where
  "Contains_repr self = format1 ''Contains('' py_repr '')'' (Contains_value self)"

subsection \<open>\<^verbatim>\<open>class AnyOf\<close>\<close>

text \<open>\<^verbatim>\<open>def __init__(self, *args)\<close>: the arguments as a list. \<^verbatim>\<open>args[0]\<close> is read only
  behind \<^verbatim>\<open>len(args) > 0\<close>; \<^verbatim>\<open>set(args)\<close> is the set of the argument tuple.\<close>

definition AnyOf_init :: "val list \<Rightarrow> error + AnyOf" where
  "AnyOf_init args =
     (case (if length args > 1
               \<or> (length args > 0
                   \<and> (\<not> hasattr_iter (args ! 0)
                       \<or> isinstance_class (Plain (args ! 0)) BasestringT))
            then py_set (VTuple args)
            else py_set_star args) of
        Inl e \<Rightarrow> Inl e
      | Inr s \<Rightarrow> Inr \<lparr>AnyOf_set = s\<rparr>)"

definition AnyOf_eq :: "AnyOf \<Rightarrow> obj \<Rightarrow> error + bool" where
  "AnyOf_eq self other = set_contains (AnyOf_set self) other"

definition AnyOf_ne :: "AnyOf \<Rightarrow> obj \<Rightarrow> error + bool" where
  "AnyOf_ne self other =
     (case AnyOf_eq self other of Inl e \<Rightarrow> Inl e | Inr b \<Rightarrow> Inr (\<not> b))"

definition AnyOf_repr :: "AnyOf \<Rightarrow> error + string" where
  "AnyOf_repr self = format1 ''AnyOf('' py_repr '')'' (VSet (AnyOf_set self))"

subsection \<open>The dispatch of \<^verbatim>\<open>==\<close>\<close>

text \<open>The \<^verbatim>\<open>__eq__\<close> of the left operand's type applied to the right operand, or
  \<open>None\<close> where it answers \<^verbatim>\<open>NotImplemented\<close>: a builtin value does so for a right
  operand that is not of its own kind, a matcher never does.\<close>

fun eq_slot :: "obj \<Rightarrow> obj \<Rightarrow> (error + bool) option" where
  "eq_slot (AnyObj m) w = Some (Any_eq m w)"
| "eq_slot (ContainsObj m) w = Some (Contains_eq m w)"
| "eq_slot (AnyOfObj m) w = Some (AnyOf_eq m w)"
| "eq_slot (Plain a) (Plain b) = Some (Inr (py_eq a b))"
| "eq_slot (Plain a) (AnyObj _) = None"
| "eq_slot (Plain a) (ContainsObj _) = None"
| "eq_slot (Plain a) (AnyOfObj _) = None"

text \<open>\<^verbatim>\<open>v == w\<close>: when the type of \<^verbatim>\<open>w\<close> is a proper subclass of the type of \<^verbatim>\<open>v\<close>,
  the method of \<^verbatim>\<open>w\<close> is tried first; then the method of \<^verbatim>\<open>v\<close>; then the reflected
  method of \<^verbatim>\<open>w\<close>; two objects that both decline are compared by identity.\<close>

definition obj_eq :: "obj \<Rightarrow> obj \<Rightarrow> error + bool" where
  "obj_eq v w =
     (case (if type_of v \<noteq> type_of w \<and> issubclass (type_of w) (type_of v)
            then eq_slot w v else None) of
        Some r \<Rightarrow> r
      | None \<Rightarrow>
          (case eq_slot v w of
             Some r \<Rightarrow> r
           | None \<Rightarrow> (case eq_slot w v of Some r \<Rightarrow> r | None \<Rightarrow> Inr (v = w))))"

subsection \<open>Predicates of the statements\<close>

text \<open>A second argument that \<^verbatim>\<open>isinstance\<close> accepts: a class, or a tuple of such.\<close>

fun valid_classinfo :: "val \<Rightarrow> bool" where
  "valid_classinfo (VClass _) = True"
| "valid_classinfo (VTuple cs) = list_all (\<lambda>c. valid_classinfo c) cs"
| "valid_classinfo VNone = False"
| "valid_classinfo (VBool _) = False"
| "valid_classinfo (VInt _) = False"
| "valid_classinfo (VStr _) = False"
| "valid_classinfo (VList _) = False"
| "valid_classinfo (VSet _) = False"
| "valid_classinfo (VFrozenset _) = False"

text \<open>No two members are equal.\<close>

fun py_distinct :: "val list \<Rightarrow> bool" where
  "py_distinct [] = True"
| "py_distinct (x # xs) = (\<not> item_in x xs \<and> py_distinct xs)"

text \<open>The keys a set lookup accepts: what hashes, and sets.\<close>

definition set_key_ok :: "val \<Rightarrow> bool" where
  "set_key_ok v = (hashable v \<or> type_of_val v = SetT)"

section \<open>Properties of the builtins\<close>

subsection \<open>The subclass order\<close>

lemma issubclass_iff:
  "issubclass c d \<longleftrightarrow>
     d = c \<or> d = ObjectT \<or> (c = BoolT \<and> d = IntT) \<or> (c = StrT \<and> d = BasestringT)"
  by (cases c) (auto simp: issubclass_def)

lemma issubclass_refl: "issubclass c c"
  by (simp add: issubclass_iff)

lemma issubclass_object: "issubclass c ObjectT"
  by (simp add: issubclass_iff)

lemma issubclass_trans: "issubclass a b \<Longrightarrow> issubclass b c \<Longrightarrow> issubclass a c"
  by (auto simp: issubclass_iff)

lemma issubclass_antisym: "issubclass a b \<Longrightarrow> issubclass b a \<Longrightarrow> a = b"
  by (auto simp: issubclass_iff)

lemma type_of_val_not_object: "type_of_val v \<noteq> ObjectT"
  by (cases v) simp_all

lemma isinstance_valid:
  "valid_classinfo c \<longrightarrow> (\<exists>b. isinstance inst c = Inr b)"
  "list_all valid_classinfo cs \<longrightarrow> (\<exists>b. isinstance_any inst cs = Inr b)"
  by (induction inst c and inst cs rule: isinstance_isinstance_any.induct) auto

subsection \<open>Equality of builtin values is an equivalence\<close>

lemma item_in_iff: "item_in x ys \<longleftrightarrow> (\<exists>y\<in>set ys. py_eq x y)"
  by (simp add: item_in_def list_ex_iff)

lemma set_like_eq_iff:
  "(list_all (\<lambda>x. list_ex (\<lambda>y. py_eq x y) ys) xs
      \<and> list_all (\<lambda>y. list_ex (\<lambda>x. py_eq x y) xs) ys)
   \<longleftrightarrow> ((\<forall>x\<in>set xs. \<exists>y\<in>set ys. py_eq x y) \<and> (\<forall>y\<in>set ys. \<exists>x\<in>set xs. py_eq x y))"
  by (simp add: list_all_iff list_ex_iff)

lemma py_eq_refl: "py_eq a a"
proof (induction a)
  case (VList xs)
  then show ?case by (simp add: list.rel_refl_strong)
next
  case (VTuple xs)
  then show ?case by (simp add: list.rel_refl_strong)
next
  case (VSet xs)
  then show ?case by (auto simp: list_all_iff list_ex_iff)
next
  case (VFrozenset xs)
  then show ?case by (auto simp: list_all_iff list_ex_iff)
qed simp_all

lemma list_all2_flip:
  "list_all2 P xs ys \<Longrightarrow> (\<And>x y. x \<in> set xs \<Longrightarrow> P x y \<Longrightarrow> P y x) \<Longrightarrow> list_all2 P ys xs"
  by (induction xs ys rule: list_all2_induct) auto

lemma py_eq_sym: "py_eq a b \<Longrightarrow> py_eq b a"
proof (induction a arbitrary: b)
  case VNone
  then show ?case by (cases b) simp_all
next
  case (VBool x)
  then show ?case by (cases b) auto
next
  case (VInt x)
  then show ?case by (cases b) auto
next
  case (VStr x)
  then show ?case by (cases b) auto
next
  case (VList xs)
  then show ?case by (cases b) (auto intro: list_all2_flip)
next
  case (VTuple xs)
  then show ?case by (cases b) (auto intro: list_all2_flip)
next
  case (VSet xs)
  then show ?case by (cases b) (simp_all add: set_like_eq_iff, blast+)
next
  case (VFrozenset xs)
  then show ?case by (cases b) (simp_all add: set_like_eq_iff, blast+)
next
  case (VClass x)
  then show ?case by (cases b) auto
qed

lemma list_all2_chain:
  "list_all2 P xs ys \<Longrightarrow> list_all2 P ys zs
   \<Longrightarrow> (\<And>x y z. x \<in> set xs \<Longrightarrow> P x y \<Longrightarrow> P y z \<Longrightarrow> P x z) \<Longrightarrow> list_all2 P xs zs"
proof (induction xs ys arbitrary: zs rule: list_all2_induct)
  case Nil
  then show ?case by simp
next
  case (Cons x xs y ys)
  then show ?case by (cases zs) auto
qed

lemma py_eq_trans: "py_eq a b \<Longrightarrow> py_eq b c \<Longrightarrow> py_eq a c"
proof (induction a arbitrary: b c)
  case VNone
  then show ?case by (cases b; cases c) simp_all
next
  case (VBool x)
  then show ?case by (cases b; cases c) (auto simp: bool_int_def split: if_splits)
next
  case (VInt x)
  then show ?case by (cases b; cases c) (auto simp: bool_int_def split: if_splits)
next
  case (VStr x)
  then show ?case by (cases b; cases c) simp_all
next
  case (VList xs)
  then show ?case by (cases b; cases c) (auto intro: list_all2_chain)
next
  case (VTuple xs)
  then show ?case by (cases b; cases c) (auto intro: list_all2_chain)
next
  case (VSet xs)
  have tr: "\<And>x y z. x \<in> set xs \<Longrightarrow> py_eq x y \<Longrightarrow> py_eq y z \<Longrightarrow> py_eq x z"
    using VSet.IH by blast
  have tr': "\<And>x y z. x \<in> set xs \<Longrightarrow> py_eq z y \<Longrightarrow> py_eq y x \<Longrightarrow> py_eq z x"
    using tr py_eq_sym by blast
  from VSet.prems show ?case
    by (cases b; cases c) (simp_all add: set_like_eq_iff, (meson tr tr')+)
next
  case (VFrozenset xs)
  have tr: "\<And>x y z. x \<in> set xs \<Longrightarrow> py_eq x y \<Longrightarrow> py_eq y z \<Longrightarrow> py_eq x z"
    using VFrozenset.IH by blast
  have tr': "\<And>x y z. x \<in> set xs \<Longrightarrow> py_eq z y \<Longrightarrow> py_eq y x \<Longrightarrow> py_eq z x"
    using tr py_eq_sym by blast
  from VFrozenset.prems show ?case
    by (cases b; cases c) (simp_all add: set_like_eq_iff, (meson tr tr')+)
next
  case (VClass x)
  then show ?case by (cases b; cases c) simp_all
qed

text \<open>A set and the frozenset of the same members are equal to the same values.\<close>

lemma py_eq_frozen: "py_eq (VFrozenset xs) b = py_eq (VSet xs) b"
  by simp

lemma item_in_frozen: "item_in (VFrozenset xs) s = item_in (VSet xs) s"
  by (simp add: item_in_def)

subsection \<open>\<^verbatim>\<open>set(...)\<close> keeps one member of each class of equal items\<close>

lemma py_distinct_snoc:
  "py_distinct (s @ [x]) \<longleftrightarrow> py_distinct s \<and> \<not> item_in x s"
  by (induction s) (auto simp: item_in_iff dest: py_eq_sym)

lemma set_add_members:
  "set_add s x = Inr s' \<Longrightarrow> item_in v s' \<longleftrightarrow> item_in v s \<or> py_eq v x"
  by (auto simp: set_add_def item_in_iff split: if_splits intro: py_eq_trans)

lemma set_add_distinct:
  "set_add s x = Inr s' \<Longrightarrow> py_distinct s \<Longrightarrow> py_distinct s'"
  by (auto simp: set_add_def py_distinct_snoc split: if_splits)

lemma set_update_members:
  "set_update s xs = Inr s' \<Longrightarrow> item_in v s' \<longleftrightarrow> item_in v s \<or> item_in v xs"
proof (induction xs arbitrary: s)
  case Nil
  then show ?case by (simp add: item_in_iff)
next
  case (Cons x xs)
  then obtain s1 where a: "set_add s x = Inr s1" and u: "set_update s1 xs = Inr s'"
    by (auto split: sum.splits)
  show ?case
    using Cons.IH [OF u] set_add_members [OF a, of v] by (auto simp: item_in_iff)
qed

lemma set_update_distinct:
  "set_update s xs = Inr s' \<Longrightarrow> py_distinct s \<Longrightarrow> py_distinct s'"
proof (induction xs arbitrary: s)
  case Nil
  then show ?case by simp
next
  case (Cons x xs)
  then show ?case by (auto split: sum.splits dest: set_add_distinct)
qed

lemma set_update_hashable:
  "list_all hashable xs \<Longrightarrow> \<exists>s'. set_update s xs = Inr s'"
proof (induction xs arbitrary: s)
  case Nil
  then show ?case by simp
next
  case (Cons x xs)
  then show ?case by (auto simp: set_add_def split: sum.splits)
qed

lemma set_update_subset:
  "set_update s xs = Inr s' \<Longrightarrow> set s' \<subseteq> set s \<union> set xs"
proof (induction xs arbitrary: s)
  case Nil
  then show ?case by simp
next
  case (Cons x xs)
  then obtain s1 where a: "set_add s x = Inr s1" and u: "set_update s1 xs = Inr s'"
    by (auto split: sum.splits)
  from a have "set s1 \<subseteq> set s \<union> {x}"
    by (auto simp: set_add_def split: if_splits)
  with Cons.IH [OF u] show ?case by auto
qed

lemma set_update_from_empty:
  assumes "list_all hashable xs"
  shows "\<exists>s. set_update [] xs = Inr s \<and> py_distinct s \<and> set s \<subseteq> set xs
             \<and> (\<forall>v. item_in v s \<longleftrightarrow> item_in v xs)"
proof -
  from set_update_hashable [OF assms] obtain s where s: "set_update [] xs = Inr s"
    by blast
  have "py_distinct s" using set_update_distinct [OF s] by simp
  moreover have "set s \<subseteq> set xs" using set_update_subset [OF s] by simp
  moreover have "\<forall>v. item_in v s \<longleftrightarrow> item_in v xs"
    using set_update_members [OF s] by (simp add: item_in_iff)
  ultimately show ?thesis using s by blast
qed

subsection \<open>A matcher on the left of \<^verbatim>\<open>==\<close> runs its own predicate\<close>

lemma obj_eq_matcher_left:
  "obj_eq (AnyObj a) w = Any_eq a w"
  "obj_eq (ContainsObj c) w = Contains_eq c w"
  "obj_eq (AnyOfObj s) w = AnyOf_eq s w"
  by (cases w; simp add: obj_eq_def issubclass_iff type_of_val_not_object)+

subsection \<open>The examples of the docstrings\<close>

lemma Any_docstring:
  "obj_eq (AnyObj (Any_init None)) (Plain (VStr ''hello'')) = Inr True"
  "obj_eq (AnyObj (Any_init None)) (Plain (VInt 100)) = Inr True"
  "obj_eq (AnyObj (Any_init (Some (VClass BasestringT)))) (Plain (VStr ''monkey'')) = Inr True"
  "Any_ne (Any_init (Some (VClass BasestringT))) (Plain (VList [VStr ''hello'', VStr ''world'']))
     = Inr True"
  by (simp_all add: obj_eq_def Any_ne_def Any_eq_def isinstance_class_def issubclass_iff)

lemma Contains_docstring:
  "obj_eq (ContainsObj (Contains_init (VStr ''ello''))) (Plain (VStr ''hello'')) = Inr True"
  "Contains_ne (Contains_init (VStr ''ello'')) (Plain (VStr ''bye bye'')) = Inr True"
  "Contains_ne (Contains_init (VInt 5)) (Plain (VList (map VInt [0, 1, 2, 3]))) = Inr True"
  by (simp_all add: obj_eq_def Contains_ne_def Contains_eq_def Contains_init_def
      issubclass_iff item_in_def sublist_Cons_right)

section \<open>The claims\<close>

subsection \<open>\<^verbatim>\<open>Any\<close>\<close>

text \<open>
  C1. For every value \<open>v\<close>, \<^verbatim>\<open>Any() == v\<close> is true; and for every value \<open>v\<close> and class
  \<open>T\<close>, \<^verbatim>\<open>Any(T) == v\<close> is true exactly when the type of \<open>v\<close> is \<open>T\<close> or a subclass of
  \<open>T\<close> (\<open>issubclass\<close>, the order characterised by \<open>issubclass_iff\<close>), hence false for a
  value of an unrelated type.
\<close>

theorem Any_eq_type_test:
  "Any_eq (Any_init None) v = Inr True
   \<and> Any_eq (Any_init (Some (VClass T))) v = Inr (issubclass (type_of v) T)"
  by (simp add: Any_eq_def isinstance_class_def issubclass_object)

theorem Any_eq_type_test_witness:
  "Any_eq (Any_init None) (Plain (VBool True)) = Inr True
   \<and> Any_eq (Any_init (Some (VClass IntT))) (Plain (VBool True)) = Inr True
   \<and> Any_eq (Any_init (Some (VClass BasestringT))) (Plain (VStr ''hello'')) = Inr True
   \<and> Any_eq (Any_init (Some (VClass BasestringT))) (Plain (VList [VStr ''hello'', VStr ''world''])) = Inr False"
  using Any_eq_type_test [of "Plain (VBool True)" IntT]
    Any_eq_type_test [of "Plain (VStr ''hello'')" BasestringT]
    Any_eq_type_test [of "Plain (VList [VStr ''hello'', VStr ''world''])" BasestringT]
  by (simp add: issubclass_iff)

text \<open>
  C8. \<^verbatim>\<open>Any.__eq__\<close> never raises, whatever the candidate (\<^verbatim>\<open>None\<close>, an unhashable
  list, a matcher), when the matcher was built without argument or with a valid type
  descriptor: a class or a tuple of classes. (Values are finite trees here, so a cyclic
  structure is not among the candidates.)
\<close>

theorem Any_eq_never_raises:
  "(\<exists>b. Any_eq (Any_init None) other = Inr b)
   \<and> (valid_classinfo c \<longrightarrow> (\<exists>b. Any_eq (Any_init (Some c)) other = Inr b))"
  using isinstance_valid(1) [of c other]
  by (simp add: Any_eq_def)

theorem Any_eq_never_raises_witness:
  "valid_classinfo (VTuple [VClass IntT, VClass StrT])
   \<and> (\<exists>b. Any_eq (Any_init (Some (VTuple [VClass IntT, VClass StrT]))) (Plain (VList [VNone])) = Inr b)
   \<and> (\<exists>b. Any_eq (Any_init None) (Plain (VList [VNone])) = Inr b)"
  using Any_eq_never_raises [of "Plain (VList [VNone])" "VTuple [VClass IntT, VClass StrT]"]
  by simp

text \<open>The hypothesis is needed: a matcher built with something that is no class raises
  at the first comparison.\<close>

lemma Any_eq_invalid_classinfo:
  "Any_eq (Any_init (Some (VInt 5))) other = Inl TypeError"
  by (simp add: Any_eq_def)

subsection \<open>Negation\<close>

text \<open>
  C6. For each of the three matchers and every candidate on which \<^verbatim>\<open>__eq__\<close> does not
  raise, \<^verbatim>\<open>__ne__\<close> returns the negation of what \<^verbatim>\<open>__eq__\<close> returns.
\<close>

theorem ne_negates_eq:
  "(Any_eq a v = Inr b \<longrightarrow> Any_ne a v = Inr (\<not> b))
   \<and> (Contains_eq c v = Inr b \<longrightarrow> Contains_ne c v = Inr (\<not> b))
   \<and> (AnyOf_eq s v = Inr b \<longrightarrow> AnyOf_ne s v = Inr (\<not> b))"
  by (simp add: Any_ne_def Contains_ne_def AnyOf_ne_def)

theorem ne_negates_eq_witness:
  "Any_eq (Any_init (Some (VClass BasestringT))) (Plain (VList [VStr ''hello''])) = Inr False
   \<and> Any_ne (Any_init (Some (VClass BasestringT))) (Plain (VList [VStr ''hello''])) = Inr True
   \<and> Contains_eq (Contains_init (VStr ''ello'')) (Plain (VStr ''hello'')) = Inr True
   \<and> Contains_ne (Contains_init (VStr ''ello'')) (Plain (VStr ''hello'')) = Inr False
   \<and> AnyOf_eq \<lparr>AnyOf_set = [VInt 1, VInt 2, VInt 3]\<rparr> (Plain (VInt 4)) = Inr False
   \<and> AnyOf_ne \<lparr>AnyOf_set = [VInt 1, VInt 2, VInt 3]\<rparr> (Plain (VInt 4)) = Inr True"
proof -
  have a: "Any_eq (Any_init (Some (VClass BasestringT))) (Plain (VList [VStr ''hello''])) = Inr False"
    by (simp add: Any_eq_def isinstance_class_def issubclass_iff)
  have c: "Contains_eq (Contains_init (VStr ''ello'')) (Plain (VStr ''hello'')) = Inr True"
    by (simp add: Contains_eq_def Contains_init_def sublist_Cons_right)
  have s: "AnyOf_eq \<lparr>AnyOf_set = [VInt 1, VInt 2, VInt 3]\<rparr> (Plain (VInt 4)) = Inr False"
    by (simp add: AnyOf_eq_def item_in_def)
  show ?thesis
    using a c s
      ne_negates_eq [where a = "Any_init (Some (VClass BasestringT))"
        and v = "Plain (VList [VStr ''hello''])" and b = False]
      ne_negates_eq [where c = "Contains_init (VStr ''ello'')"
        and v = "Plain (VStr ''hello'')" and b = True]
      ne_negates_eq [where s = "\<lparr>AnyOf_set = [VInt 1, VInt 2, VInt 3]\<rparr>"
        and v = "Plain (VInt 4)" and b = False]
    by simp
qed

text \<open>When \<^verbatim>\<open>__eq__\<close> raises, so does \<^verbatim>\<open>__ne__\<close>, with the same error.\<close>

lemma ne_raises_with_eq:
  "Any_eq a v = Inl e \<Longrightarrow> Any_ne a v = Inl e"
  "Contains_eq c v = Inl e \<Longrightarrow> Contains_ne c v = Inl e"
  "AnyOf_eq s v = Inl e \<Longrightarrow> AnyOf_ne s v = Inl e"
  by (simp_all add: Any_ne_def Contains_ne_def AnyOf_ne_def)

subsection \<open>\<^verbatim>\<open>Contains\<close>\<close>

text \<open>
  C2. \<^verbatim>\<open>Contains(x) == c\<close> is the membership test of the candidate, for every needle
  and every candidate. On a list or tuple it is true exactly when some item equals \<open>x\<close>.
  On a string it is true exactly when the string \<open>x\<close> is a substring, and raises
  \<^verbatim>\<open>TypeError\<close> for a needle that is not a string. On a set or frozenset it is true
  exactly when some member equals \<open>x\<close>, for a key the lookup accepts (a hashable value, or
  a set, looked up as the frozenset of its members), and raises \<^verbatim>\<open>TypeError\<close> for any
  other needle. A candidate with no membership protocol makes the comparison raise
  \<^verbatim>\<open>TypeError\<close>, as \<^verbatim>\<open>Contains(1) == 5\<close> does; it never returns false there.
\<close>

theorem Contains_eq_membership:
  "Contains_eq (Contains_init x) (Plain (VList ys)) = Inr (\<exists>y\<in>set ys. py_eq x y)
   \<and> Contains_eq (Contains_init x) (Plain (VTuple ys)) = Inr (\<exists>y\<in>set ys. py_eq x y)
   \<and> Contains_eq (Contains_init (VStr t)) (Plain (VStr u)) = Inr (\<exists>ps ss. u = ps @ t @ ss)
   \<and> (type_of_val x \<noteq> StrT \<longrightarrow>
        Contains_eq (Contains_init x) (Plain (VStr u)) = Inl TypeError)
   \<and> (set_key_ok x \<longrightarrow>
        Contains_eq (Contains_init x) (Plain (VSet ys)) = Inr (\<exists>y\<in>set ys. py_eq x y)
        \<and> Contains_eq (Contains_init x) (Plain (VFrozenset ys)) = Inr (\<exists>y\<in>set ys. py_eq x y))
   \<and> (\<not> set_key_ok x \<longrightarrow>
        Contains_eq (Contains_init x) (Plain (VSet ys)) = Inl TypeError
        \<and> Contains_eq (Contains_init x) (Plain (VFrozenset ys)) = Inl TypeError)
   \<and> (\<not> supports_in c \<longrightarrow> Contains_eq (Contains_init x) c = Inl TypeError)
   \<and> Contains_eq (Contains_init (VInt 1)) (Plain (VInt 5)) = Inl TypeError"
proof -
  have unsupported: "\<not> supports_in c \<Longrightarrow> py_contains x c = Inl TypeError"
    by (induction x c rule: py_contains.induct) simp_all
  have str_needle: "type_of_val x \<noteq> StrT \<Longrightarrow> py_contains x (Plain (VStr u)) = Inl TypeError"
    by (cases x) simp_all
  have key_ok: "set_contains ys (Plain x) = Inr (\<exists>y\<in>set ys. py_eq x y)" if "set_key_ok x"
    using that by (cases x) (simp_all add: set_key_ok_def item_in_iff)
  have key_bad: "set_contains ys (Plain x) = Inl TypeError" if "\<not> set_key_ok x"
    using that by (cases x) (simp_all add: set_key_ok_def)
  show ?thesis
    using unsupported str_needle key_ok key_bad
    by (simp add: Contains_eq_def Contains_init_def item_in_iff sublist_def)
qed

theorem Contains_eq_membership_witness:
  "Contains_eq (Contains_init (VInt 5)) (Plain (VList (map VInt [0, 1, 2, 3, 4, 5, 6, 7, 8, 9]))) = Inr True
   \<and> Contains_eq (Contains_init (VInt 5)) (Plain (VList (map VInt [0, 1, 2, 3]))) = Inr False
   \<and> Contains_eq (Contains_init (VStr ''ello'')) (Plain (VStr ''hello'')) = Inr True
   \<and> type_of_val (VInt 1) \<noteq> StrT
   \<and> Contains_eq (Contains_init (VInt 1)) (Plain (VStr ''abc'')) = Inl TypeError
   \<and> set_key_ok (VInt 5)
   \<and> Contains_eq (Contains_init (VInt 5)) (Plain (VSet [VInt 4, VInt 5])) = Inr True
   \<and> set_key_ok (VSet [VInt 1])
   \<and> Contains_eq (Contains_init (VSet [VInt 1])) (Plain (VSet [VFrozenset [VInt 1]])) = Inr True
   \<and> \<not> set_key_ok (VList [VInt 1])
   \<and> Contains_eq (Contains_init (VList [VInt 1])) (Plain (VSet [VInt 1])) = Inl TypeError
   \<and> \<not> supports_in (Plain VNone)
   \<and> Contains_eq (Contains_init (VInt 5)) (Plain VNone) = Inl TypeError"
proof -
  have sub: "\<exists>ps ss. ''hello'' = ps @ ''ello'' @ ss"
    by (rule exI [of _ "''h''"], rule exI [of _ "[]"]) simp
  show ?thesis
    using sub
      Contains_eq_membership [of "VInt 5" "map VInt [0, 1, 2, 3, 4, 5, 6, 7, 8, 9]" "''ello''" "''hello''" "Plain VNone"]
      Contains_eq_membership [of "VInt 5" "map VInt [0, 1, 2, 3]" t u "Plain VNone"]
      Contains_eq_membership [of "VInt 1" ys t "''abc''" c]
      Contains_eq_membership [of "VInt 5" "[VInt 4, VInt 5]" t u c]
      Contains_eq_membership [of "VSet [VInt 1]" "[VFrozenset [VInt 1]]" t u c]
      Contains_eq_membership [of "VList [VInt 1]" "[VInt 1]" t u c]
    by (simp add: set_key_ok_def)
qed

text \<open>The candidates with a membership protocol are exactly the five kinds of the
  statement, so it settles every candidate.\<close>

lemma supports_in_cases:
  "supports_in c \<longleftrightarrow>
     (\<exists>u. c = Plain (VStr u)) \<or> (\<exists>ys. c = Plain (VList ys)) \<or> (\<exists>ys. c = Plain (VTuple ys))
     \<or> (\<exists>ys. c = Plain (VSet ys)) \<or> (\<exists>ys. c = Plain (VFrozenset ys))"
  by (induction c rule: supports_in.induct) simp_all

subsection \<open>\<^verbatim>\<open>AnyOf\<close>\<close>

text \<open>
  C4. \<^verbatim>\<open>AnyOf\<close> called with a single list, tuple, set or frozenset (of hashable items)
  stores the items as a set: no two stored members are equal, every stored member is one
  of the items, and a value is a member of the stored set exactly when it equals one of
  the items. \<^verbatim>\<open>AnyOf([1, 2, 2, 3]) == 2\<close> is true and the stored set has exactly 3
  members, pairwise different.
\<close>

theorem AnyOf_init_iterable:
  "(list_all hashable xs \<and> c \<in> {VList xs, VTuple xs, VSet xs, VFrozenset xs} \<longrightarrow>
      (\<exists>s. AnyOf_init [c] = Inr \<lparr>AnyOf_set = s\<rparr> \<and> py_distinct s \<and> set s \<subseteq> set xs
           \<and> (\<forall>v. item_in v s \<longleftrightarrow> item_in v xs)))
   \<and> (\<exists>m. AnyOf_init [VList [VInt 1, VInt 2, VInt 2, VInt 3]] = Inr m
           \<and> AnyOf_eq m (Plain (VInt 2)) = Inr True
           \<and> length (AnyOf_set m) = 3 \<and> py_distinct (AnyOf_set m))"
proof -
  have general: "\<exists>s. AnyOf_init [c] = Inr \<lparr>AnyOf_set = s\<rparr> \<and> py_distinct s \<and> set s \<subseteq> set xs
           \<and> (\<forall>v. item_in v s \<longleftrightarrow> item_in v xs)"
    if h: "list_all hashable xs" and c: "c \<in> {VList xs, VTuple xs, VSet xs, VFrozenset xs}"
  proof -
    from set_update_from_empty [OF h] obtain s where
      s: "set_update [] xs = Inr s" "py_distinct s" "set s \<subseteq> set xs"
         "\<forall>v. item_in v s \<longleftrightarrow> item_in v xs"
      by blast
    from c have "hasattr_iter c" "\<not> isinstance_class (Plain c) BasestringT" "py_iter c = Inr xs"
      by (auto simp: isinstance_class_def issubclass_iff)
    then have "AnyOf_init [c] = Inr \<lparr>AnyOf_set = s\<rparr>"
      using s(1) by (simp add: AnyOf_init_def py_set_def)
    with s show ?thesis by blast
  qed
  have concrete: "AnyOf_init [VList [VInt 1, VInt 2, VInt 2, VInt 3]]
      = Inr \<lparr>AnyOf_set = [VInt 1, VInt 2, VInt 3]\<rparr>"
    by (simp add: AnyOf_init_def isinstance_class_def issubclass_iff py_set_def set_add_def
        item_in_def)
  have "AnyOf_eq \<lparr>AnyOf_set = [VInt 1, VInt 2, VInt 3]\<rparr> (Plain (VInt 2)) = Inr True"
    by (simp add: AnyOf_eq_def item_in_def)
  moreover have "py_distinct [VInt 1, VInt 2, VInt 3]"
    by (simp add: item_in_def)
  ultimately show ?thesis using general concrete by simp
qed

theorem AnyOf_init_iterable_witness:
  "list_all hashable [VStr ''a'', VStr ''b'', VStr ''a'']
   \<and> (\<exists>s. AnyOf_init [VTuple [VStr ''a'', VStr ''b'', VStr ''a'']] = Inr \<lparr>AnyOf_set = s\<rparr>
          \<and> py_distinct s \<and> set s \<subseteq> set [VStr ''a'', VStr ''b'', VStr ''a'']
          \<and> (\<forall>v. item_in v s \<longleftrightarrow> item_in v [VStr ''a'', VStr ''b'', VStr ''a'']))"
  using AnyOf_init_iterable [of "[VStr ''a'', VStr ''b'', VStr ''a'']"
      "VTuple [VStr ''a'', VStr ''b'', VStr ''a'']"]
  by simp

text \<open>
  C5. \<^verbatim>\<open>AnyOf\<close> called with a single string stores the string itself as the one
  member, not its characters: \<^verbatim>\<open>AnyOf("hello") == "hello"\<close> is true.
\<close>

theorem AnyOf_init_single_string:
  "AnyOf_init [VStr s] = Inr \<lparr>AnyOf_set = [VStr s]\<rparr>
   \<and> AnyOf_eq \<lparr>AnyOf_set = [VStr s]\<rparr> (Plain (VStr s)) = Inr True"
  by (simp add: AnyOf_init_def AnyOf_eq_def isinstance_class_def issubclass_iff py_set_def
      set_add_def item_in_def)

theorem AnyOf_init_single_string_witness:
  "AnyOf_init [VStr ''hello''] = Inr \<lparr>AnyOf_set = [VStr ''hello'']\<rparr>
   \<and> AnyOf_eq \<lparr>AnyOf_set = [VStr ''hello'']\<rparr> (Plain (VStr ''hello'')) = Inr True"
  using AnyOf_init_single_string [of "''hello''"] by simp

text \<open>The branch not taken would have stored the characters.\<close>

lemma py_set_of_string:
  "py_set (VStr ''hello'') = Inr [VStr ''h'', VStr ''e'', VStr ''l'', VStr ''o'']"
  by (simp add: py_set_def set_add_def item_in_def)

text \<open>
  C7. \<^verbatim>\<open>AnyOf.__eq__\<close> is the membership test of the stored set. On a key the lookup
  accepts (a hashable value; or a set, which Python looks up as the frozenset of its
  members) it returns whether some stored member equals the candidate:
  \<^verbatim>\<open>AnyOf(1, 2, 3) == 2\<close> is true, \<^verbatim>\<open>AnyOf(1, 2, 3) == 4\<close> is false. On any other
  candidate (a list, a tuple holding a list) it raises \<^verbatim>\<open>TypeError\<close>; it does not
  return false.
\<close>

theorem AnyOf_eq_membership:
  "(set_key_ok v \<longrightarrow> AnyOf_eq m (Plain v) = Inr (\<exists>y\<in>set (AnyOf_set m). py_eq v y))
   \<and> (\<not> set_key_ok v \<longrightarrow> AnyOf_eq m (Plain v) = Inl TypeError)
   \<and> (\<exists>m3. AnyOf_init [VInt 1, VInt 2, VInt 3] = Inr m3
           \<and> AnyOf_eq m3 (Plain (VInt 2)) = Inr True
           \<and> AnyOf_eq m3 (Plain (VInt 4)) = Inr False
           \<and> AnyOf_eq m3 (Plain (VList [VInt 2])) = Inl TypeError)"
proof -
  have ok: "AnyOf_eq m (Plain v) = Inr (\<exists>y\<in>set (AnyOf_set m). py_eq v y)" if "set_key_ok v"
    using that
    by (cases v) (simp_all add: AnyOf_eq_def set_key_ok_def item_in_iff)
  have bad: "AnyOf_eq m (Plain v) = Inl TypeError" if "\<not> set_key_ok v"
    using that
    by (cases v) (simp_all add: AnyOf_eq_def set_key_ok_def)
  have init: "AnyOf_init [VInt 1, VInt 2, VInt 3] = Inr \<lparr>AnyOf_set = [VInt 1, VInt 2, VInt 3]\<rparr>"
    by (simp add: AnyOf_init_def py_set_def set_add_def item_in_def)
  have "AnyOf_eq \<lparr>AnyOf_set = [VInt 1, VInt 2, VInt 3]\<rparr> (Plain (VInt 2)) = Inr True"
    "AnyOf_eq \<lparr>AnyOf_set = [VInt 1, VInt 2, VInt 3]\<rparr> (Plain (VInt 4)) = Inr False"
    "AnyOf_eq \<lparr>AnyOf_set = [VInt 1, VInt 2, VInt 3]\<rparr> (Plain (VList [VInt 2])) = Inl TypeError"
    by (simp_all add: AnyOf_eq_def item_in_def)
  with ok bad init show ?thesis by simp
qed

theorem AnyOf_eq_membership_witness:
  "set_key_ok (VTuple [VInt 1, VStr ''a''])
   \<and> AnyOf_eq \<lparr>AnyOf_set = [VTuple [VInt 1, VStr ''a'']]\<rparr> (Plain (VTuple [VInt 1, VStr ''a''])) = Inr True
   \<and> \<not> set_key_ok (VTuple [VInt 1, VList []])
   \<and> AnyOf_eq \<lparr>AnyOf_set = [VTuple [VInt 1, VStr ''a'']]\<rparr> (Plain (VTuple [VInt 1, VList []])) = Inl TypeError"
  using AnyOf_eq_membership [of "VTuple [VInt 1, VStr ''a'']" "\<lparr>AnyOf_set = [VTuple [VInt 1, VStr ''a'']]\<rparr>"]
    AnyOf_eq_membership [of "VTuple [VInt 1, VList []]" "\<lparr>AnyOf_set = [VTuple [VInt 1, VStr ''a'']]\<rparr>"]
  by (simp add: set_key_ok_def)

text \<open>
  C10. \<^verbatim>\<open>AnyOf()\<close> stores the empty set, and is equal to no hashable candidate.
\<close>

theorem AnyOf_init_no_argument:
  "AnyOf_init [] = Inr \<lparr>AnyOf_set = []\<rparr>
   \<and> (hashable v \<longrightarrow> AnyOf_eq \<lparr>AnyOf_set = []\<rparr> (Plain v) = Inr False)"
  by (simp add: AnyOf_init_def AnyOf_eq_def item_in_def)

theorem AnyOf_init_no_argument_witness:
  "AnyOf_init [] = Inr \<lparr>AnyOf_set = []\<rparr>
   \<and> hashable (VStr ''hello'')
   \<and> AnyOf_eq \<lparr>AnyOf_set = []\<rparr> (Plain (VStr ''hello'')) = Inr False"
  using AnyOf_init_no_argument [of "VStr ''hello''"] by simp

text \<open>A matcher candidate hashes by identity and is not found either; an unhashable
  list still raises.\<close>

lemma AnyOf_empty_other_candidates:
  "AnyOf_eq \<lparr>AnyOf_set = []\<rparr> (AnyObj a) = Inr False"
  "AnyOf_eq \<lparr>AnyOf_set = []\<rparr> (Plain (VList xs)) = Inl TypeError"
  by (simp_all add: AnyOf_eq_def)

subsection \<open>The matcher on either side of \<^verbatim>\<open>==\<close>\<close>

text \<open>
  C3, as stated, fails: \<^verbatim>\<open>m == v\<close> and \<^verbatim>\<open>v == m\<close> differ when the candidate \<open>v\<close> is
  itself a matcher, because \<^verbatim>\<open>==\<close> calls the method of its left operand and a matcher's
  \<^verbatim>\<open>__eq__\<close> never declines. \<^verbatim>\<open>Any() == Any(int)\<close> asks whether \<^verbatim>\<open>Any(int)\<close> is an
  \<^verbatim>\<open>object\<close>, which is true; \<^verbatim>\<open>Any(int) == Any()\<close> asks whether \<^verbatim>\<open>Any()\<close> is an
  \<^verbatim>\<open>int\<close>, which is false. Neither comparison raises.
\<close>

theorem eq_symmetry_counterexample:
  "obj_eq (AnyObj (Any_init None)) (AnyObj (Any_init (Some (VClass IntT)))) = Inr True
   \<and> obj_eq (AnyObj (Any_init (Some (VClass IntT)))) (AnyObj (Any_init None)) = Inr False"
  by (simp add: obj_eq_def Any_eq_def isinstance_class_def issubclass_iff)

text \<open>
  C3, amended. For each of the three matchers \<open>m\<close> and every candidate \<open>v\<close> that is a
  builtin value (not a matcher), \<^verbatim>\<open>m == v\<close> and \<^verbatim>\<open>v == m\<close> both are \<^verbatim>\<open>m.__eq__(v)\<close>:
  the same boolean, or the same error.
\<close>

theorem eq_either_side_builtin:
  "obj_eq (AnyObj a) (Plain v) = Any_eq a (Plain v)
   \<and> obj_eq (Plain v) (AnyObj a) = Any_eq a (Plain v)
   \<and> obj_eq (ContainsObj c) (Plain v) = Contains_eq c (Plain v)
   \<and> obj_eq (Plain v) (ContainsObj c) = Contains_eq c (Plain v)
   \<and> obj_eq (AnyOfObj s) (Plain v) = AnyOf_eq s (Plain v)
   \<and> obj_eq (Plain v) (AnyOfObj s) = AnyOf_eq s (Plain v)"
  using type_of_val_not_object [of v]
  by (cases v) (simp_all add: obj_eq_def issubclass_iff)

theorem eq_either_side_builtin_witness:
  "obj_eq (Plain (VStr ''world'')) (AnyObj (Any_init None)) = Inr True
   \<and> obj_eq (AnyObj (Any_init None)) (Plain (VStr ''world'')) = Inr True
   \<and> obj_eq (Plain (VInt 5)) (ContainsObj (Contains_init (VInt 1))) = Inl TypeError
   \<and> obj_eq (ContainsObj (Contains_init (VInt 1))) (Plain (VInt 5)) = Inl TypeError"
proof -
  have "Any_eq (Any_init None) (Plain (VStr ''world'')) = Inr True"
    by (simp add: Any_eq_def isinstance_class_def issubclass_iff)
  moreover have "Contains_eq (Contains_init (VInt 1)) (Plain (VInt 5)) = Inl TypeError"
    by (simp add: Contains_eq_def Contains_init_def)
  ultimately show ?thesis
    using eq_either_side_builtin [where v = "VStr ''world''" and a = "Any_init None"]
      eq_either_side_builtin [where v = "VInt 5" and c = "Contains_init (VInt 1)"]
    by simp
qed

subsection \<open>\<^verbatim>\<open>__repr__\<close>\<close>

text \<open>
  C9, as stated, fails. \<^verbatim>\<open>Any(int)\<close> is displayed with \<^verbatim>\<open>%s\<close> of the class object,
  which in Python 2 is \<^verbatim>\<open><type 'int'>\<close> and not the name \<^verbatim>\<open>int\<close>. And the \<^verbatim>\<open>%\<close>
  operator takes a tuple on its right as the tuple of arguments, so the \<^verbatim>\<open>repr\<close> of
  \<^verbatim>\<open>Contains((1, 2))\<close> raises \<^verbatim>\<open>TypeError\<close> and that of \<^verbatim>\<open>Contains((1,))\<close> is
  \<^verbatim>\<open>Contains(1)\<close>, where the \<^verbatim>\<open>repr\<close> of the needle is \<^verbatim>\<open>(1,)\<close>.
\<close>

theorem repr_counterexample:
  "Any_repr (Any_init (Some (VClass IntT))) = Inr ''Any(<type 'int'>)''
   \<and> Any_repr (Any_init (Some (VClass IntT))) \<noteq> Inr ''Any(int)''
   \<and> Contains_repr (Contains_init (VTuple [VInt 1, VInt 2])) = Inl TypeError
   \<and> Contains_repr (Contains_init (VTuple [VInt 1])) = Inr ''Contains(1)''
   \<and> py_repr (VTuple [VInt 1]) = ''(1,)''"
  by (simp add: Any_repr_def Contains_repr_def Contains_init_def class_repr_def int_repr_def
      nat_digits.simps digit_char_def)

text \<open>
  C9, amended. \<^verbatim>\<open>Any()\<close> and \<^verbatim>\<open>Any(object)\<close> are displayed as \<^verbatim>\<open>Any()\<close>; \<^verbatim>\<open>Any(T)\<close>
  for another class \<open>T\<close> as \<^verbatim>\<open>Any(\<close>, the display of the class object (\<open>class_repr\<close>:
  \<^verbatim>\<open><type 'int'>\<close> for a builtin, \<^verbatim>\<open><class 'mockextras.matchers.Any'>\<close> for a class of
  the module), \<^verbatim>\<open>)\<close>. \<^verbatim>\<open>Contains(x)\<close> for a needle that is not a tuple is displayed as
  \<^verbatim>\<open>Contains(\<close>, the \<^verbatim>\<open>repr\<close> of the needle, \<^verbatim>\<open>)\<close>. An \<^verbatim>\<open>AnyOf\<close> is displayed as
  \<^verbatim>\<open>AnyOf(\<close>, the \<^verbatim>\<open>repr\<close> of its set, \<^verbatim>\<open>)\<close>.
\<close>

theorem repr_rendering:
  "Any_repr (Any_init None) = Inr ''Any()''
   \<and> Any_repr (Any_init (Some (VClass T)))
       = Inr (if T = ObjectT then ''Any()'' else ''Any('' @ class_repr T @ '')'')
   \<and> (type_of_val x \<noteq> TupleT \<longrightarrow>
        Contains_repr (Contains_init x) = Inr (''Contains('' @ py_repr x @ '')''))
   \<and> AnyOf_repr m = Inr (''AnyOf('' @ py_repr (VSet (AnyOf_set m)) @ '')'')"
  by (cases x) (simp_all add: Any_repr_def Contains_repr_def Contains_init_def AnyOf_repr_def)

theorem repr_rendering_witness:
  "Any_repr (Any_init (Some (VClass BasestringT))) = Inr ''Any(<type 'basestring'>)''
   \<and> type_of_val (VStr ''ello'') \<noteq> TupleT
   \<and> Contains_repr (Contains_init (VStr ''ello'')) = Inr ''Contains('ello')''
   \<and> AnyOf_repr \<lparr>AnyOf_set = [VInt 1, VInt 2, VInt 3]\<rparr> = Inr ''AnyOf(set([1, 2, 3]))''"
  using repr_rendering [of BasestringT "VStr ''ello''" "\<lparr>AnyOf_set = [VInt 1, VInt 2, VInt 3]\<rparr>"]
  by (simp add: class_repr_def str_repr_def escape_char_def int_repr_def nat_digits.simps
      digit_char_def Let_def)

end
